theory Spec2Isabelle
  imports Complex_Main
begin

section \<open>Data model of the credit-limit and transaction engine\<close>

text \<open>
  Identifiers are \<open>uuid.UUID\<close> values; only their equality and their order as primary
  keys matter, so they are modelled as natural numbers, \<open>uuid.Nil\<close> being \<open>0\<close>.
  Monetary amounts are \<open>float64\<close> in the source; they are modelled as exact rationals,
  so rounding of the floating-point operations and of the \<open>DECIMAL(15,2)\<close> columns is
  not part of this model. A Go \<open>int\<close> is 64 bits wide; the fields of that type are
  modelled as \<open>int\<close>, the code does no arithmetic on them that could wrap around, and a
  value outside \<open>- 2 ^ 63, ..., 2 ^ 63 - 1\<close> stands for no value of the program. The
  audit columns \<open>CreatedAt\<close>/\<open>UpdatedAt\<close> are left out of all rows.
\<close>

type_synonym uuid = nat

definition uuid_Nil :: uuid where
  "uuid_Nil = 0"

type_synonym TransactionStatus = string
type_synonym TransactionDetailStatus = string

definition TransactionStatusPending :: TransactionStatus where
  "TransactionStatusPending = ''pending''"

definition TransactionStatusActive :: TransactionStatus where
  "TransactionStatusActive = ''active''"

definition TransactionStatusCompleted :: TransactionStatus where
  "TransactionStatusCompleted = ''completed''"

definition TransactionDetailStatusPending :: TransactionDetailStatus where
  "TransactionDetailStatusPending = ''pending''"

text \<open>
  A \<open>time.Time\<close> in UTC, as the civil date and clock it denotes. A well-formed value has
  \<open>1 \<le> Month \<le> 12\<close> and \<open>1 \<le> Day \<le> daysIn Month Year\<close>.
\<close>

record Time =
  Year :: int
  Month :: nat
  Day :: nat
  Hour :: nat
  Minute :: nat
  Second :: nat
  Nanosecond :: nat

definition isLeap :: "int \<Rightarrow> bool" where
  "isLeap y = (y mod 4 = 0 \<and> (y mod 100 \<noteq> 0 \<or> y mod 400 = 0))"

definition daysIn :: "nat \<Rightarrow> int \<Rightarrow> nat" where
  "daysIn m y =
     (if m = 2 then (if isLeap y then 29 else 28)
      else if m = 4 \<or> m = 6 \<or> m = 9 \<or> m = 11 then 30
      else 31)"

definition nextMonth :: "Time \<Rightarrow> nat" where
  "nextMonth t = (if Month t = 12 then 1 else Month t + 1)"

definition nextMonthYear :: "Time \<Rightarrow> int" where
  "nextMonthYear t = (if Month t = 12 then Year t + 1 else Year t)"

text \<open>
  \<open>t.AddDate(0, 1, 0)\<close> of the Go standard library: the date \<open>(Year, Month + 1, Day)\<close>
  with the same clock, normalised the way \<open>time.Date\<close> does. A month after December is
  January of the next year, and a day that the target month does not have runs over into
  the month after it (adding one month to October 31 gives December 1). For a
  well-formed \<open>t\<close> the excess is at most three days, so one carry is enough.
\<close>

definition AddDate_0_1_0 :: "Time \<Rightarrow> Time" where
  "AddDate_0_1_0 t =
     (let y = nextMonthYear t; m = nextMonth t; n = daysIn m y in
      if Day t \<le> n then t\<lparr>Year := y, Month := m\<rparr>
      else if m = 12 then t\<lparr>Year := y + 1, Month := 1, Day := Day t - n\<rparr>
      else t\<lparr>Year := y, Month := m + 1, Day := Day t - n\<rparr>)"

record Customer =
  cu_ID :: uuid
  IsActive :: bool

record Asset =
  as_ID :: uuid
  Price :: rat

record CreditLimit =
  cl_ID :: uuid
  cl_CustomerID :: uuid
  cl_TenorMonth :: int
  LimitAmount :: rat
  UsedAmount :: rat

record TransactionDetail =
  td_ID :: uuid
  td_TransactionID :: uuid
  InstallmentNumber :: int
  td_Amount :: rat
  DueDate :: Time
  td_Status :: TransactionDetailStatus

text \<open>
  \<open>tx_TransactionDetail\<close> is the association pointer \<open>*TransactionDetail\<close> of the entity:
  \<open>None\<close> in a freshly built or stored row, filled by \<open>Preload\<close> when a row is read back.
\<close>

record Transaction =
  tx_ID :: uuid
  tx_CustomerID :: uuid
  tx_AssetID :: uuid
  ContractNumber :: string
  OTRAmount :: rat
  AdminFee :: rat
  InterestAmount :: rat
  tx_TenorMonth :: int
  InstallmentAmount :: rat
  tx_Status :: TransactionStatus
  tx_TransactionDetail :: "TransactionDetail option"

text \<open>
  Errors as values. \<open>Errorf\<close> is \<open>fmt.Errorf\<close> with its format and plain arguments,
  \<open>Wrapf\<close> is \<open>fmt.Errorf("...: %w", err)\<close>; \<open>Panic\<close> is a run-time panic.
\<close>

datatype fmtarg = I int | F rat | S string

datatype error =
    ErrCreditLimitNotFound
  | ErrInsufficientCreditLimit
  | ErrDuplicateCreditLimit
  | ErrCreditLimitInUse
  | ErrTransactionNotFound
  | ErrDuplicateContract
  | ErrInvalidStatus
  | ErrRecordNotFound
  | ErrEmptySlice
  | ErrConstraint string
  | Errorf string "fmtarg list"
  | Wrapf string error
  | Panic string

section \<open>The installment schedule generator\<close>

text \<open>
  \<open>transactionRepository.generateInstallments\<close>. The loop body of iteration \<open>i\<close> with
  \<open>k\<close> iterations still to run; \<open>newID i\<close> is the result of the \<open>uuid.New()\<close> call of
  iteration \<open>i\<close>, and the last argument is the running \<open>dueDate\<close>.
\<close>

fun installments_loop ::
  "Transaction \<Rightarrow> (nat \<Rightarrow> uuid) \<Rightarrow> nat \<Rightarrow> nat \<Rightarrow> Time \<Rightarrow> TransactionDetail list" where
  "installments_loop transaction newID i 0 dueDate = []"
| "installments_loop transaction newID i (Suc k) dueDate =
     \<lparr>td_ID = newID i,
      td_TransactionID = tx_ID transaction,
      InstallmentNumber = int i + 1,
      td_Amount = InstallmentAmount transaction,
      DueDate = AddDate_0_1_0 dueDate,
      td_Status = TransactionDetailStatusPending\<rparr>
     # installments_loop transaction newID (Suc i) k (AddDate_0_1_0 dueDate)"

text \<open>
  \<open>make([]entity.TransactionDetail, n)\<close> of the Go runtime (\<open>runtime.makeslice\<close>): it
  panics when \<open>n\<close> is negative or when the \<open>n\<close> elements take more than \<open>maxAlloc\<close>
  bytes. On the 64-bit platforms the service is built for, \<open>maxAlloc\<close> is \<open>2 ^ 48\<close> and a
  \<open>TransactionDetail\<close> takes 136 bytes (two 16-byte identifiers, an \<open>int\<close>, a
  \<open>float64\<close>, a string header and three \<open>time.Time\<close> values of 24 bytes). Every value
  of a Go \<open>int\<close> above that bound panics here, so no schedule is longer than
  \<open>maxAlloc div sizeof_TransactionDetail\<close>. That the machine has the memory for a slice
  below the bound is taken for granted.
\<close>

definition maxAlloc :: int where
  "maxAlloc = 2 ^ 48"

definition sizeof_TransactionDetail :: int where
  "sizeof_TransactionDetail = 136"

text \<open>\<open>now\<close> is what \<open>time.Now().UTC()\<close> returns when the generator starts.\<close>

definition generateInstallments ::
  "Time \<Rightarrow> (nat \<Rightarrow> uuid) \<Rightarrow> Transaction \<Rightarrow> error + TransactionDetail list" where
  "generateInstallments now newID transaction =
     (if tx_TenorMonth transaction < 0
         \<or> maxAlloc < sizeof_TransactionDetail * tx_TenorMonth transaction
      then Inl (Panic ''makeslice: len out of range'')
      else Inr (installments_loop transaction newID 0 (nat (tx_TenorMonth transaction)) now))"



section \<open>The persisted store\<close>

text \<open>
  The tables of the MySQL schema that the engine touches. Each list is kept in the order
  of its primary key, the order in which \<open>First\<close> and an unordered \<open>SELECT\<close> over the
  primary index see the rows.
\<close>

record db =
  customers :: "Customer list"
  assets :: "Asset list"
  credit_limits :: "CreditLimit list"
  transactions :: "Transaction list"
  transaction_details :: "TransactionDetail list"

text \<open>\<open>tx.Where(...).First(&row)\<close>: the first matching row, or \<open>gorm.ErrRecordNotFound\<close>.\<close>

definition First :: "('r \<Rightarrow> bool) \<Rightarrow> 'r list \<Rightarrow> error + 'r" where
  "First P rows = (case find P rows of None \<Rightarrow> Inl ErrRecordNotFound | Some r \<Rightarrow> Inr r)"

text \<open>
  \<open>mysql.Client.Transaction\<close>: the function runs on the store, and every write it made
  is rolled back when it returns an error.
\<close>

definition db_Transaction :: "(db \<Rightarrow> error option \<times> db) \<Rightarrow> db \<Rightarrow> error option \<times> db" where
  "db_Transaction fn s = (case fn s of (None, s') \<Rightarrow> (None, s') | (Some err, s') \<Rightarrow> (Some err, s))"

text \<open>
  \<open>INSERT\<close> into \<open>credit_limits\<close> under the constraints of migration 000003: the primary
  key \<open>id\<close> and the foreign key \<open>customer_id\<close>. The migration declares no other key.
\<close>

definition insert_credit_limit :: "CreditLimit \<Rightarrow> db \<Rightarrow> error + db" where
  "insert_credit_limit limit s =
     (if list_ex (\<lambda>r. cl_ID r = cl_ID limit) (credit_limits s)
      then Inl (ErrConstraint ''duplicate entry for key PRIMARY'')
      else if \<not> list_ex (\<lambda>c. cu_ID c = cl_CustomerID limit) (customers s)
      then Inl (ErrConstraint ''foreign key constraint fails: customer_id'')
      else Inr (s\<lparr>credit_limits := insort_key cl_ID limit (credit_limits s)\<rparr>))"

text \<open>
  \<open>tx.Save(&limit)\<close> of a row that the same database transaction has just read:
  an \<open>UPDATE\<close> of all columns of the row with that primary key.
\<close>

definition save_credit_limit :: "CreditLimit \<Rightarrow> db \<Rightarrow> db" where
  "save_credit_limit limit s =
     s\<lparr>credit_limits := map (\<lambda>r. if cl_ID r = cl_ID limit then limit else r) (credit_limits s)\<rparr>"

definition delete_credit_limit :: "CreditLimit \<Rightarrow> db \<Rightarrow> db" where
  "delete_credit_limit limit s =
     s\<lparr>credit_limits := filter (\<lambda>r. cl_ID r \<noteq> cl_ID limit) (credit_limits s)\<rparr>"

text \<open>
  \<open>INSERT\<close> into \<open>transactions\<close> under migration 000005: primary key, unique
  \<open>contract_number\<close>, foreign keys \<open>customer_id\<close> and \<open>asset_id\<close>.
\<close>

definition insert_transaction :: "Transaction \<Rightarrow> db \<Rightarrow> error + db" where
  "insert_transaction transaction s =
     (if list_ex (\<lambda>r. tx_ID r = tx_ID transaction) (transactions s)
      then Inl (ErrConstraint ''duplicate entry for key PRIMARY'')
      else if list_ex (\<lambda>r. ContractNumber r = ContractNumber transaction) (transactions s)
      then Inl (ErrConstraint ''duplicate entry for key contract_number'')
      else if \<not> list_ex (\<lambda>c. cu_ID c = tx_CustomerID transaction) (customers s)
      then Inl (ErrConstraint ''foreign key constraint fails: customer_id'')
      else if \<not> list_ex (\<lambda>a. as_ID a = tx_AssetID transaction) (assets s)
      then Inl (ErrConstraint ''foreign key constraint fails: asset_id'')
      else Inr (s\<lparr>transactions := insort_key tx_ID transaction (transactions s)\<rparr>))"

text \<open>
  \<open>tx.Create(&installments)\<close>, one batch \<open>INSERT\<close> into \<open>transaction_details\<close> under
  migration 000006 (primary key, foreign key \<open>transaction_id\<close>); gorm refuses an empty
  slice with \<open>ErrEmptySlice\<close>.
\<close>

definition insert_transaction_details :: "TransactionDetail list \<Rightarrow> db \<Rightarrow> error + db" where
  "insert_transaction_details installments s =
     (if installments = [] then Inl ErrEmptySlice
      else if \<not> distinct (map td_ID installments)
            \<or> list_ex (\<lambda>d. list_ex (\<lambda>r. td_ID r = td_ID d) (transaction_details s)) installments
      then Inl (ErrConstraint ''duplicate entry for key PRIMARY'')
      else if list_ex (\<lambda>d. \<not> list_ex (\<lambda>t. tx_ID t = td_TransactionID d) (transactions s)) installments
      then Inl (ErrConstraint ''foreign key constraint fails: transaction_id'')
      else Inr (s\<lparr>transaction_details := foldr (insort_key td_ID) installments (transaction_details s)\<rparr>))"

text \<open>\<open>tx.Model(&transaction).Update("status", status)\<close>.\<close>

definition update_transaction_status :: "Transaction \<Rightarrow> TransactionStatus \<Rightarrow> db \<Rightarrow> db" where
  "update_transaction_status transaction status s =
     s\<lparr>transactions :=
         map (\<lambda>r. if tx_ID r = tx_ID transaction then r\<lparr>tx_Status := status\<rparr> else r) (transactions s)\<rparr>"

text \<open>
  \<open>Preload("TransactionDetail")\<close> on the has-one pointer field: gorm selects the detail
  rows of the transaction and assigns each of them to the one field in turn, so the last
  one stays.
\<close>

definition Preload_TransactionDetail :: "db \<Rightarrow> Transaction \<Rightarrow> Transaction" where
  "Preload_TransactionDetail s transaction =
     (case filter (\<lambda>d. td_TransactionID d = tx_ID transaction) (transaction_details s) of
        [] \<Rightarrow> transaction\<lparr>tx_TransactionDetail := None\<rparr>
      | d # ds \<Rightarrow> transaction\<lparr>tx_TransactionDetail := Some (last (d # ds))\<rparr>)"

section \<open>Repository interfaces\<close>

text \<open>
  The services depend on the repositories through the interfaces of package \<open>entity\<close>.
  A read returns \<open>(value, error)\<close>: \<open>Inl err\<close>, or \<open>Inr None\<close> for \<open>(nil, nil)\<close>, or the
  row. A write returns its \<open>error\<close> (\<open>None\<close> for \<open>nil\<close>) and the store it leaves. Only the
  methods that the modelled services call are listed.
\<close>

record CreditLimitRepository =
  clr_Create :: "CreditLimit \<Rightarrow> db \<Rightarrow> error option \<times> db"
  clr_GetByID :: "uuid \<Rightarrow> db \<Rightarrow> error + CreditLimit option"
  clr_GetByCustomerIDAndTenor :: "uuid \<Rightarrow> int \<Rightarrow> db \<Rightarrow> error + CreditLimit option"
  clr_UpdateUsedAmount :: "uuid \<Rightarrow> rat \<Rightarrow> db \<Rightarrow> error option \<times> db"
  clr_Delete :: "uuid \<Rightarrow> db \<Rightarrow> error option \<times> db"

record TransactionRepository =
  trr_Create :: "Transaction \<Rightarrow> db \<Rightarrow> error option \<times> db"
  trr_GetByID :: "uuid \<Rightarrow> db \<Rightarrow> error + Transaction option"
  trr_GetByContractNumber :: "string \<Rightarrow> db \<Rightarrow> error + Transaction option"
  trr_UpdateStatus :: "uuid \<Rightarrow> TransactionStatus \<Rightarrow> db \<Rightarrow> error option \<times> db"

record CustomerRepository =
  cur_GetByID :: "uuid \<Rightarrow> db \<Rightarrow> error + Customer option"

record AssetRepository =
  asr_GetByID :: "uuid \<Rightarrow> db \<Rightarrow> error + Asset option"

section \<open>The gorm-backed repositories\<close>

text \<open>\<open>creditLimitRepository\<close> of \<open>internal/repository/credit_limit.go\<close>.\<close>

definition creditLimitRepository_Create :: "CreditLimit \<Rightarrow> db \<Rightarrow> error option \<times> db" where
  "creditLimitRepository_Create limit =
     db_Transaction (\<lambda>s.
       case insert_credit_limit limit s of
         Inl err \<Rightarrow> (Some (Wrapf ''failed to create credit limit'' err), s)
       | Inr s' \<Rightarrow> (None, s'))"

definition creditLimitRepository_GetByID :: "uuid \<Rightarrow> db \<Rightarrow> error + CreditLimit option" where
  "creditLimitRepository_GetByID rid s =
     (case First (\<lambda>r. cl_ID r = rid) (credit_limits s) of
        Inl err \<Rightarrow>
          if err = ErrRecordNotFound then Inr None
          else Inl (Wrapf ''failed to get credit limit'' err)
      | Inr limit \<Rightarrow> Inr (Some limit))"

definition creditLimitRepository_GetByCustomerIDAndTenor ::
  "uuid \<Rightarrow> int \<Rightarrow> db \<Rightarrow> error + CreditLimit option" where
  "creditLimitRepository_GetByCustomerIDAndTenor customerID tenorMonth s =
     (case First (\<lambda>r. cl_CustomerID r = customerID \<and> cl_TenorMonth r = tenorMonth) (credit_limits s) of
        Inl err \<Rightarrow>
          if err = ErrRecordNotFound then Inr None
          else Inl (Wrapf ''failed to get credit limit'' err)
      | Inr limit \<Rightarrow> Inr (Some limit))"

definition creditLimitRepository_UpdateUsedAmount :: "uuid \<Rightarrow> rat \<Rightarrow> db \<Rightarrow> error option \<times> db" where
  "creditLimitRepository_UpdateUsedAmount rid amount =
     db_Transaction (\<lambda>s.
       case First (\<lambda>r. cl_ID r = rid) (credit_limits s) of
         Inl err \<Rightarrow> (Some (Wrapf ''failed to get credit limit for update'' err), s)
       | Inr limit \<Rightarrow>
           if UsedAmount limit + amount > LimitAmount limit
           then (Some (Errorf ''insufficient credit limit: available %.2f, requested %.2f''
                         [F (LimitAmount limit - UsedAmount limit), F amount]), s)
           else (None, save_credit_limit (limit\<lparr>UsedAmount := UsedAmount limit + amount\<rparr>) s))"

definition creditLimitRepository_Delete :: "uuid \<Rightarrow> db \<Rightarrow> error option \<times> db" where
  "creditLimitRepository_Delete rid =
     db_Transaction (\<lambda>s.
       case First (\<lambda>r. cl_ID r = rid) (credit_limits s) of
         Inl err \<Rightarrow>
           if err = ErrRecordNotFound then (Some (Errorf ''credit limit not found'' []), s)
           else (Some (Wrapf ''failed to get credit limit for deletion'' err), s)
       | Inr limit \<Rightarrow>
           if UsedAmount limit > 0
           then (Some (Errorf ''cannot delete credit limit: limit is currently in use'' []), s)
           else (None, delete_credit_limit limit s))"

definition creditLimitRepository :: CreditLimitRepository where
  "creditLimitRepository =
     \<lparr>clr_Create = creditLimitRepository_Create,
      clr_GetByID = creditLimitRepository_GetByID,
      clr_GetByCustomerIDAndTenor = creditLimitRepository_GetByCustomerIDAndTenor,
      clr_UpdateUsedAmount = creditLimitRepository_UpdateUsedAmount,
      clr_Delete = creditLimitRepository_Delete\<rparr>"

text \<open>
  \<open>transactionRepository\<close> of \<open>internal/repository/transaction.go\<close>. \<open>Create\<close> reads the
  clock and draws identifiers inside \<open>generateInstallments\<close>; both are arguments here.
  A panic of the generator leaves the database transaction through its rollback.
\<close>

definition transactionRepository_Create ::
  "Time \<Rightarrow> (nat \<Rightarrow> uuid) \<Rightarrow> Transaction \<Rightarrow> db \<Rightarrow> error option \<times> db" where
  "transactionRepository_Create now newID transaction =
     db_Transaction (\<lambda>s.
       case First (\<lambda>r. cl_CustomerID r = tx_CustomerID transaction
                       \<and> cl_TenorMonth r = tx_TenorMonth transaction) (credit_limits s) of
         Inl err \<Rightarrow> (Some (Wrapf ''failed to get credit limit'' err), s)
       | Inr creditLimit \<Rightarrow>
           if UsedAmount creditLimit + OTRAmount transaction > LimitAmount creditLimit
           then (Some (Errorf ''insufficient credit limit: available %.2f, requested %.2f''
                         [F (LimitAmount creditLimit - UsedAmount creditLimit),
                          F (OTRAmount transaction)]), s)
           else
             (case insert_transaction transaction s of
                Inl err \<Rightarrow> (Some (Wrapf ''failed to create transaction'' err), s)
              | Inr s1 \<Rightarrow>
                  (case generateInstallments now newID transaction of
                     Inl p \<Rightarrow> (Some p, s1)
                   | Inr installments \<Rightarrow>
                       (case insert_transaction_details installments s1 of
                          Inl err \<Rightarrow> (Some (Wrapf ''failed to create transaction details'' err), s1)
                        | Inr s2 \<Rightarrow>
                            (None,
                             save_credit_limit
                               (creditLimit\<lparr>UsedAmount :=
                                  UsedAmount creditLimit + OTRAmount transaction\<rparr>) s2)))))"

definition transactionRepository_GetByID :: "uuid \<Rightarrow> db \<Rightarrow> error + Transaction option" where
  "transactionRepository_GetByID rid s =
     (case First (\<lambda>r. tx_ID r = rid) (transactions s) of
        Inl err \<Rightarrow>
          if err = ErrRecordNotFound then Inr None
          else Inl (Wrapf ''failed to get transaction'' err)
      | Inr transaction \<Rightarrow> Inr (Some (Preload_TransactionDetail s transaction)))"

definition transactionRepository_GetByContractNumber ::
  "string \<Rightarrow> db \<Rightarrow> error + Transaction option" where
  "transactionRepository_GetByContractNumber contractNumber s =
     (case First (\<lambda>r. ContractNumber r = contractNumber) (transactions s) of
        Inl err \<Rightarrow>
          if err = ErrRecordNotFound then Inr None
          else Inl (Wrapf ''failed to get transaction by contract number'' err)
      | Inr transaction \<Rightarrow> Inr (Some (Preload_TransactionDetail s transaction)))"

definition transactionRepository_UpdateStatus ::
  "uuid \<Rightarrow> TransactionStatus \<Rightarrow> db \<Rightarrow> error option \<times> db" where
  "transactionRepository_UpdateStatus rid status =
     db_Transaction (\<lambda>s.
       case First (\<lambda>r. tx_ID r = rid) (transactions s) of
         Inl err \<Rightarrow> (Some (Wrapf ''failed to get transaction'' err), s)
       | Inr transaction \<Rightarrow> (None, update_transaction_status transaction status s))"

definition transactionRepository :: "Time \<Rightarrow> (nat \<Rightarrow> uuid) \<Rightarrow> TransactionRepository" where
  "transactionRepository now newID =
     \<lparr>trr_Create = transactionRepository_Create now newID,
      trr_GetByID = transactionRepository_GetByID,
      trr_GetByContractNumber = transactionRepository_GetByContractNumber,
      trr_UpdateStatus = transactionRepository_UpdateStatus\<rparr>"

text \<open>
  \<open>customerRepository.GetByID\<close> and \<open>assetRepository.GetByID\<close>, without their read-through
  Redis cache: the row of the table, or \<open>(nil, nil)\<close>.
\<close>

definition customerRepository_GetByID :: "uuid \<Rightarrow> db \<Rightarrow> error + Customer option" where
  "customerRepository_GetByID rid s =
     (case First (\<lambda>r. cu_ID r = rid) (customers s) of
        Inl err \<Rightarrow>
          if err = ErrRecordNotFound then Inr None
          else Inl (Wrapf ''failed to get customer'' err)
      | Inr customer \<Rightarrow> Inr (Some customer))"

definition assetRepository_GetByID :: "uuid \<Rightarrow> db \<Rightarrow> error + Asset option" where
  "assetRepository_GetByID rid s =
     (case First (\<lambda>r. as_ID r = rid) (assets s) of
        Inl err \<Rightarrow>
          if err = ErrRecordNotFound then Inr None
          else Inl (Wrapf ''failed to get asset'' err)
      | Inr asset \<Rightarrow> Inr (Some asset))"

definition customerRepository :: CustomerRepository where
  "customerRepository = \<lparr>cur_GetByID = customerRepository_GetByID\<rparr>"

definition assetRepository :: AssetRepository where
  "assetRepository = \<lparr>asr_GetByID = assetRepository_GetByID\<rparr>"

section \<open>Requests, validation and responses\<close>

record CreateCreditLimitRequest =
  lr_CustomerID :: uuid
  lr_TenorMonth :: int
  lr_LimitAmount :: rat

record CreateTransactionRequest =
  rq_CustomerID :: uuid
  rq_AssetID :: uuid
  rq_TenorMonth :: int
  rq_AdminFee :: rat
  InterestRate :: rat
  rq_ContractNumber :: string

text \<open>The closure \<open>isValidTenor\<close>: a lookup in the map \<open>{1: true, 2: true, 3: true, 6: true}\<close>.\<close>

definition isValidTenor :: "int \<Rightarrow> bool" where
  "isValidTenor tenor = (tenor = 1 \<or> tenor = 2 \<or> tenor = 3 \<or> tenor = 6)"

definition CreateCreditLimitRequest_Validate :: "CreateCreditLimitRequest \<Rightarrow> string list" where
  "CreateCreditLimitRequest_Validate r =
     (if lr_CustomerID r = uuid_Nil then [''customer_id is required''] else [])
     @ (if \<not> isValidTenor (lr_TenorMonth r) then [''tenor_month must be 1, 2, 3, or 6''] else [])
     @ (if lr_LimitAmount r \<le> 0 then [''limit_amount must be greater than 0''] else [])"

definition CreateTransactionRequest_Validate :: "CreateTransactionRequest \<Rightarrow> string list" where
  "CreateTransactionRequest_Validate r =
     (if rq_CustomerID r = uuid_Nil then [''customer_id is required''] else [])
     @ (if rq_AssetID r = uuid_Nil then [''asset_id is required''] else [])
     @ (if \<not> isValidTenor (rq_TenorMonth r) then [''tenor_month must be 1, 2, 3, or 6''] else [])
     @ (if rq_AdminFee r < 0 then [''admin_fee must not be negative''] else [])
     @ (if InterestRate r < 0 \<or> InterestRate r > 100
        then [''interest_rate must be between 0 and 100''] else [])
     @ (if rq_ContractNumber r = [] then [''contract_number is required''] else [])"

text \<open>\<open>TransactionStatus.IsValid\<close>.\<close>

definition TransactionStatus_IsValid :: "TransactionStatus \<Rightarrow> bool" where
  "TransactionStatus_IsValid status =
     (status = TransactionStatusPending \<or> status = TransactionStatusActive
      \<or> status = TransactionStatusCompleted)"

fun Join :: "string list \<Rightarrow> string \<Rightarrow> string" where
  "Join [] sep = []"
| "Join [x] sep = x"
| "Join (x # y # ys) sep = x @ sep @ Join (y # ys) sep"

text \<open>
  The responses, without their timestamp strings and without the embedded customer and
  asset blocks. \<open>ir_DueDate\<close> is the date that the layout \<open>"2006-01-02"\<close> prints.
\<close>

record InstallmentResponse =
  ir_ID :: uuid
  ir_TransactionID :: uuid
  ir_InstallmentNumber :: int
  ir_Amount :: rat
  ir_DueDate :: "int \<times> nat \<times> nat"
  ir_Status :: TransactionDetailStatus

record TransactionResponse =
  rs_ID :: uuid
  rs_CustomerID :: uuid
  rs_AssetID :: uuid
  rs_ContractNumber :: string
  rs_OTRAmount :: rat
  rs_AdminFee :: rat
  rs_InterestAmount :: rat
  rs_TenorMonth :: int
  rs_InstallmentAmount :: rat
  rs_Status :: TransactionStatus
  Installments :: "InstallmentResponse list"

text \<open>\<open>transactionService.toResponse\<close>.\<close>

definition transactionService_toResponse :: "Transaction \<Rightarrow> TransactionResponse" where
  "transactionService_toResponse tx =
     \<lparr>rs_ID = tx_ID tx,
      rs_CustomerID = tx_CustomerID tx,
      rs_AssetID = tx_AssetID tx,
      rs_ContractNumber = ContractNumber tx,
      rs_OTRAmount = OTRAmount tx,
      rs_AdminFee = AdminFee tx,
      rs_InterestAmount = InterestAmount tx,
      rs_TenorMonth = tx_TenorMonth tx,
      rs_InstallmentAmount = InstallmentAmount tx,
      rs_Status = tx_Status tx,
      Installments =
        (case tx_TransactionDetail tx of
           None \<Rightarrow> []
         | Some d \<Rightarrow>
             [\<lparr>ir_ID = td_ID d,
               ir_TransactionID = td_TransactionID d,
               ir_InstallmentNumber = InstallmentNumber d,
               ir_Amount = td_Amount d,
               ir_DueDate = (Year (DueDate d), Month (DueDate d), Day (DueDate d)),
               ir_Status = td_Status d\<rparr>])\<rparr>"

text \<open>\<open>creditLimitService.toResponse\<close> copies the five modelled fields.\<close>

definition creditLimitService_toResponse :: "CreditLimit \<Rightarrow> CreditLimit" where
  "creditLimitService_toResponse limit =
     \<lparr>cl_ID = cl_ID limit,
      cl_CustomerID = cl_CustomerID limit,
      cl_TenorMonth = cl_TenorMonth limit,
      LimitAmount = LimitAmount limit,
      UsedAmount = UsedAmount limit\<rparr>"

section \<open>The credit-limit service\<close>

text \<open>\<open>creditLimitService.Create\<close>; \<open>newID\<close> is the result of \<open>uuid.New()\<close>.\<close>

definition creditLimitService_Create ::
  "CreditLimitRepository \<Rightarrow> uuid \<Rightarrow> CreateCreditLimitRequest \<Rightarrow> db \<Rightarrow> (error + CreditLimit) \<times> db" where
  "creditLimitService_Create repo newID req s =
     (let errors = CreateCreditLimitRequest_Validate req in
      if length errors > 0
      then (Inl (Errorf ''validation failed: %v'' [S (Join errors ''||'')]), s)
      else
        (case clr_GetByCustomerIDAndTenor repo (lr_CustomerID req) (lr_TenorMonth req) s of
           Inl err \<Rightarrow> (Inl (Wrapf ''failed to check existing credit limit'' err), s)
         | Inr (Some existingLimit) \<Rightarrow> (Inl ErrDuplicateCreditLimit, s)
         | Inr None \<Rightarrow>
             (let limit = \<lparr>cl_ID = newID,
                           cl_CustomerID = lr_CustomerID req,
                           cl_TenorMonth = lr_TenorMonth req,
                           LimitAmount = lr_LimitAmount req,
                           UsedAmount = 0\<rparr> in
              case clr_Create repo limit s of
                (Some err, s') \<Rightarrow> (Inl (Wrapf ''failed to create credit limit'' err), s')
              | (None, s') \<Rightarrow> (Inr (creditLimitService_toResponse limit), s'))))"

text \<open>\<open>creditLimitService.Delete\<close>.\<close>

definition creditLimitService_Delete ::
  "CreditLimitRepository \<Rightarrow> uuid \<Rightarrow> db \<Rightarrow> error option \<times> db" where
  "creditLimitService_Delete repo rid s =
     (case clr_GetByID repo rid s of
        Inl err \<Rightarrow> (Some (Wrapf ''failed to get credit limit'' err), s)
      | Inr None \<Rightarrow> (Some ErrCreditLimitNotFound, s)
      | Inr (Some limit) \<Rightarrow>
          if UsedAmount limit > 0 then (Some ErrCreditLimitInUse, s)
          else
            (case clr_Delete repo rid s of
               (Some err, s') \<Rightarrow> (Some (Wrapf ''failed to delete credit limit'' err), s')
             | (None, s') \<Rightarrow> (None, s')))"

text \<open>\<open>creditLimitService.UpdateUsedAmount\<close>.\<close>

definition creditLimitService_UpdateUsedAmount ::
  "CreditLimitRepository \<Rightarrow> uuid \<Rightarrow> rat \<Rightarrow> db \<Rightarrow> error option \<times> db" where
  "creditLimitService_UpdateUsedAmount repo rid amount s =
     (if amount = 0 then (None, s)
      else
        (case clr_GetByID repo rid s of
           Inl err \<Rightarrow> (Some (Wrapf ''failed to get credit limit'' err), s)
         | Inr None \<Rightarrow> (Some ErrCreditLimitNotFound, s)
         | Inr (Some limit) \<Rightarrow>
             if amount < 0 \<and> UsedAmount limit + amount < 0
             then (Some (Errorf ''invalid amount: would result in negative used amount'' []), s)
             else if amount > 0 \<and> UsedAmount limit + amount > LimitAmount limit
             then (Some ErrInsufficientCreditLimit, s)
             else
               (case clr_UpdateUsedAmount repo rid amount s of
                  (Some err, s') \<Rightarrow>
                    (Some (Wrapf ''failed to update credit limit used amount'' err), s')
                | (None, s') \<Rightarrow> (None, s'))))"

section \<open>The transaction service\<close>

record transactionService =
  transactionRepo :: TransactionRepository
  customerRepo :: CustomerRepository
  creditLimitRepo :: CreditLimitRepository
  assetRepo :: AssetRepository

text \<open>
  \<open>transactionService.Create\<close>, lines 62 to 157: the four reads run as goroutines and all
  of them complete before any result is looked at; then the results are checked in the
  order contract number, customer, asset, credit limit. None of the reads writes to the
  store, so they are taken on the same state.
\<close>

definition transactionService_Create_fetch ::
  "transactionService \<Rightarrow> CreateTransactionRequest \<Rightarrow> db \<Rightarrow> error + Asset \<times> CreditLimit" where
  "transactionService_Create_fetch svc req s =
     (let existingTxResult = trr_GetByContractNumber (transactionRepo svc) (rq_ContractNumber req) s;
          customerResult = cur_GetByID (customerRepo svc) (rq_CustomerID req) s;
          assetResult = asr_GetByID (assetRepo svc) (rq_AssetID req) s;
          creditLimitResult =
            clr_GetByCustomerIDAndTenor (creditLimitRepo svc) (rq_CustomerID req) (rq_TenorMonth req) s
      in
      case existingTxResult of
        Inl err \<Rightarrow> Inl (Wrapf ''failed to check existing contract'' err)
      | Inr (Some trx) \<Rightarrow> Inl ErrDuplicateContract
      | Inr None \<Rightarrow>
          (case customerResult of
             Inl err \<Rightarrow> Inl (Wrapf ''failed to get customer'' err)
           | Inr None \<Rightarrow> Inl (Errorf ''customer not found'' [])
           | Inr (Some customer) \<Rightarrow>
               if \<not> IsActive customer then Inl (Errorf ''customer is not active'' [])
               else
                 (case assetResult of
                    Inl err \<Rightarrow> Inl (Wrapf ''failed to get asset'' err)
                  | Inr None \<Rightarrow> Inl (Errorf ''asset not found'' [])
                  | Inr (Some asset) \<Rightarrow>
                      (case creditLimitResult of
                         Inl err \<Rightarrow> Inl (Wrapf ''failed to get credit limit'' err)
                       | Inr None \<Rightarrow>
                           Inl (Errorf ''no credit limit found for tenor %d months''
                                  [I (rq_TenorMonth req)])
                       | Inr (Some creditLimit) \<Rightarrow> Inr (asset, creditLimit)))))"

text \<open>Lines 159 to 161: the flat-rate pricing.\<close>

definition interestAmount :: "Asset \<Rightarrow> CreateTransactionRequest \<Rightarrow> rat" where
  "interestAmount asset req = (Price asset * InterestRate req * of_int (rq_TenorMonth req)) / 100"

definition totalAmount :: "Asset \<Rightarrow> CreateTransactionRequest \<Rightarrow> rat" where
  "totalAmount asset req = Price asset + rq_AdminFee req + interestAmount asset req"

definition installmentAmount :: "Asset \<Rightarrow> CreateTransactionRequest \<Rightarrow> rat" where
  "installmentAmount asset req = totalAmount asset req / of_int (rq_TenorMonth req)"

text \<open>
  Lines 167 to 207: the transaction is built and stored, the used amount of the credit
  limit read at line 88 is updated, and the stored transaction is read back.
  \<open>toResponse\<close> dereferences its argument, so a \<open>nil\<close> from \<open>GetByID\<close> is a panic.
\<close>

definition transactionService_Create_persist ::
  "transactionService \<Rightarrow> uuid \<Rightarrow> CreateTransactionRequest \<Rightarrow> Asset \<Rightarrow> CreditLimit \<Rightarrow> db
     \<Rightarrow> (error + TransactionResponse) \<times> db" where
  "transactionService_Create_persist svc newID req asset creditLimit s =
     (let transaction =
            \<lparr>tx_ID = newID,
             tx_CustomerID = rq_CustomerID req,
             tx_AssetID = rq_AssetID req,
             ContractNumber = rq_ContractNumber req,
             OTRAmount = Price asset,
             AdminFee = rq_AdminFee req,
             InterestAmount = interestAmount asset req,
             tx_TenorMonth = rq_TenorMonth req,
             InstallmentAmount = installmentAmount asset req,
             tx_Status = TransactionStatusPending,
             tx_TransactionDetail = None\<rparr> in
      case trr_Create (transactionRepo svc) transaction s of
        (Some err, s1) \<Rightarrow> (Inl (Wrapf ''failed to create transaction'' err), s1)
      | (None, s1) \<Rightarrow>
          (case clr_UpdateUsedAmount (creditLimitRepo svc) (cl_ID creditLimit)
                  (totalAmount asset req) s1 of
             (Some err, s2) \<Rightarrow> (Inl (Wrapf ''failed to update credit limit'' err), s2)
           | (None, s2) \<Rightarrow>
               (case trr_GetByID (transactionRepo svc) (tx_ID transaction) s2 of
                  Inl err \<Rightarrow> (Inl (Wrapf ''failed to get created transaction'' err), s2)
                | Inr None \<Rightarrow> (Inl (Panic ''nil pointer dereference''), s2)
                | Inr (Some createdTx) \<Rightarrow> (Inr (transactionService_toResponse createdTx), s2))))"

text \<open>\<open>transactionService.Create\<close>; \<open>newID\<close> is the result of \<open>uuid.New()\<close> at line 168.\<close>

definition transactionService_Create ::
  "transactionService \<Rightarrow> uuid \<Rightarrow> CreateTransactionRequest \<Rightarrow> db
     \<Rightarrow> (error + TransactionResponse) \<times> db" where
  "transactionService_Create svc newID req s =
     (let errors = CreateTransactionRequest_Validate req in
      if length errors > 0
      then (Inl (Errorf ''validation failed: %v'' [S (Join errors ''||'')]), s)
      else
        (case transactionService_Create_fetch svc req s of
           Inl err \<Rightarrow> (Inl err, s)
         | Inr (asset, creditLimit) \<Rightarrow>
             if totalAmount asset req > LimitAmount creditLimit - UsedAmount creditLimit
             then (Inl ErrInsufficientCreditLimit, s)
             else transactionService_Create_persist svc newID req asset creditLimit s))"

text \<open>\<open>transactionService.UpdateStatus\<close>.\<close>

definition transactionService_UpdateStatus ::
  "transactionService \<Rightarrow> uuid \<Rightarrow> TransactionStatus \<Rightarrow> db \<Rightarrow> error option \<times> db" where
  "transactionService_UpdateStatus svc rid status s =
     (if \<not> TransactionStatus_IsValid status then (Some ErrInvalidStatus, s)
      else
        (case trr_GetByID (transactionRepo svc) rid s of
           Inl err \<Rightarrow> (Some (Wrapf ''failed to get transaction'' err), s)
         | Inr None \<Rightarrow> (Some ErrTransactionNotFound, s)
         | Inr (Some transaction) \<Rightarrow>
             (case trr_UpdateStatus (transactionRepo svc) rid status s of
                (Some err, s') \<Rightarrow> (Some (Wrapf ''failed to update status'' err), s')
              | (None, s') \<Rightarrow> (None, s'))))"

section \<open>The wired engine and its operations\<close>

text \<open>
  The services as \<open>wire\<close> builds them, over the gorm-backed repositories. \<open>now\<close> and
  \<open>newDetailID\<close> are the clock reading and the identifiers that the schedule generator
  draws while the request is served.
\<close>

definition engine :: "Time \<Rightarrow> (nat \<Rightarrow> uuid) \<Rightarrow> transactionService" where
  "engine now newDetailID =
     \<lparr>transactionRepo = transactionRepository now newDetailID,
      customerRepo = customerRepository,
      creditLimitRepo = creditLimitRepository,
      assetRepo = assetRepository\<rparr>"

text \<open>
  One request to the engine, together with the identifiers and clock reading it draws.
  \<open>exec\<close> is the store that serving the request leaves, \<open>run\<close> serves a sequence of
  requests one after the other.
\<close>

datatype op =
    CreateCreditLimit uuid CreateCreditLimitRequest
  | UpdateUsedAmount uuid rat
  | DeleteCreditLimit uuid
  | CreateTransaction Time "nat \<Rightarrow> uuid" uuid CreateTransactionRequest

fun exec :: "op \<Rightarrow> db \<Rightarrow> db" where
  "exec (CreateCreditLimit newID req) s = snd (creditLimitService_Create creditLimitRepository newID req s)"
| "exec (UpdateUsedAmount rid amount) s = snd (creditLimitService_UpdateUsedAmount creditLimitRepository rid amount s)"
| "exec (DeleteCreditLimit rid) s = snd (creditLimitService_Delete creditLimitRepository rid s)"
| "exec (CreateTransaction now newDetailID newID req) s =
     snd (transactionService_Create (engine now newDetailID) newID req s)"

fun run :: "op list \<Rightarrow> db \<Rightarrow> db" where
  "run [] s = s"
| "run (x # xs) s = run xs (exec x s)"

text \<open>
  The ledger invariant: every credit limit has \<open>0 \<le> UsedAmount \<le> LimitAmount\<close>. Asset
  prices are positive: the asset service validates \<open>price\<close> with \<open>gt=0\<close> on create and on
  update.
\<close>

definition ledger_inv :: "db \<Rightarrow> bool" where
  "ledger_inv s = list_all (\<lambda>c. 0 \<le> UsedAmount c \<and> UsedAmount c \<le> LimitAmount c) (credit_limits s)"

definition assets_priced :: "db \<Rightarrow> bool" where
  "assets_priced s = list_all (\<lambda>a. 0 < Price a) (assets s)"

text \<open>At most one credit limit for each pair of customer and tenor.\<close>

definition unique_pairs :: "db \<Rightarrow> bool" where
  "unique_pairs s = distinct (map (\<lambda>c. (cl_CustomerID c, cl_TenorMonth c)) (credit_limits s))"

text \<open>
  What an issuance answers and stores: the tenor of the response, the number of
  installments in the response, and the number of schedule rows in the store.
\<close>

definition installments_returned ::
  "(error + TransactionResponse) \<times> db \<Rightarrow> error + int \<times> nat \<times> nat" where
  "installments_returned r =
     (case fst r of
        Inl e \<Rightarrow> Inl e
      | Inr resp \<Rightarrow>
          Inr (rs_TenorMonth resp, length (Installments resp), length (transaction_details (snd r))))"

section \<open>The calendar of the specification\<close>

text \<open>
  The notions in which the specification speaks about due dates, written down from its
  words and independently of \<open>AddDate_0_1_0\<close>. Calendar months are counted through:
  \<open>spec_month_index\<close> is the number of the month of a date, twelve to a year, and
  \<open>spec_days_in_month\<close> is the length of the month with a given number in the Gregorian
  calendar.
\<close>

definition spec_month_index :: "Time \<Rightarrow> int" where
  "spec_month_index t = 12 * Year t + int (Month t) - 1"

definition spec_days_in_month :: "int \<Rightarrow> nat" where
  "spec_days_in_month k =
     (let y = k div 12 in
      [31, if y mod 4 = 0 \<and> (y mod 100 \<noteq> 0 \<or> y mod 400 = 0) then 29 else 28,
       31, 30, 31, 30, 31, 31, 30, 31, 30, 31] ! nat (k mod 12))"

text \<open>A date of the calendar.\<close>

definition spec_valid_date :: "Time \<Rightarrow> bool" where
  "spec_valid_date t =
     (1 \<le> Month t \<and> Month t \<le> 12 \<and> 1 \<le> Day t \<and> Day t \<le> spec_days_in_month (spec_month_index t))"

definition spec_same_clock :: "Time \<Rightarrow> Time \<Rightarrow> bool" where
  "spec_same_clock a b =
     (Hour b = Hour a \<and> Minute b = Minute a \<and> Second b = Second a \<and> Nanosecond b = Nanosecond a)"

text \<open>
  \<open>b\<close> lies in the calendar month that follows the month of \<open>a\<close>; and \<open>b\<close> is exactly one
  calendar month after \<open>a\<close>: the same day of the month and the same time of day in the
  following calendar month.
\<close>

definition spec_in_following_month :: "Time \<Rightarrow> Time \<Rightarrow> bool" where
  "spec_in_following_month a b =
     (spec_month_index b = spec_month_index a + 1 \<and> 1 \<le> Month b \<and> Month b \<le> 12)"

definition spec_one_calendar_month_after :: "Time \<Rightarrow> Time \<Rightarrow> bool" where
  "spec_one_calendar_month_after a b =
     (spec_in_following_month a b \<and> Day b = Day a \<and> spec_same_clock a b)"

text \<open>
  The following month is too short for the day of \<open>a\<close>, and \<open>b\<close> is the date in the month
  after it that lies as many days past the end of the following month as the day of \<open>a\<close>
  does.
\<close>

definition spec_run_over :: "Time \<Rightarrow> Time \<Rightarrow> bool" where
  "spec_run_over a b =
     (spec_month_index b = spec_month_index a + 2 \<and> 1 \<le> Month b \<and> Month b \<le> 12
      \<and> 1 \<le> Day b \<and> Day a = spec_days_in_month (spec_month_index a + 1) + Day b
      \<and> spec_same_clock a b)"

text \<open>
  A sequence of due dates that starts after \<open>prev\<close>. In \<open>spec_monthly\<close> each date is exactly
  one calendar month after the one before it. In \<open>spec_monthly_or_run_over\<close> that holds
  for each date whose day the following month has, and the other dates run over.
\<close>

fun spec_monthly :: "Time \<Rightarrow> Time list \<Rightarrow> bool" where
  "spec_monthly prev [] = True"
| "spec_monthly prev (d # ds) = (spec_one_calendar_month_after prev d \<and> spec_monthly d ds)"

fun spec_monthly_or_run_over :: "Time \<Rightarrow> Time list \<Rightarrow> bool" where
  "spec_monthly_or_run_over prev [] = True"
| "spec_monthly_or_run_over prev (d # ds) =
     ((if Day prev \<le> spec_days_in_month (spec_month_index prev + 1)
       then spec_one_calendar_month_after prev d else spec_run_over prev d)
      \<and> spec_monthly_or_run_over d ds)"

definition due_dates :: "error + TransactionDetail list \<Rightarrow> error + Time list" where
  "due_dates r = (case r of Inl e \<Rightarrow> Inl e | Inr ds \<Rightarrow> Inr (map DueDate ds))"

section \<open>Concrete stores and requests\<close>

text \<open>
  The scenarios of the specification: one active customer, one asset, and one credit limit
  of the customer for the given tenor.
\<close>

definition scenario_now :: Time where
  "scenario_now = \<lparr>Year = 2024, Month = 1, Day = 15, Hour = 10, Minute = 0, Second = 0, Nanosecond = 0\<rparr>"

definition scenario_ids :: "nat \<Rightarrow> uuid" where
  "scenario_ids i = 100 + i"

definition scenario_db :: "int \<Rightarrow> rat \<Rightarrow> rat \<Rightarrow> rat \<Rightarrow> db" where
  "scenario_db tenor price granted committed =
     \<lparr>customers = [\<lparr>cu_ID = 1, IsActive = True\<rparr>],
      assets = [\<lparr>as_ID = 2, Price = price\<rparr>],
      credit_limits =
        [\<lparr>cl_ID = 3, cl_CustomerID = 1, cl_TenorMonth = tenor,
          LimitAmount = granted, UsedAmount = committed\<rparr>],
      transactions = [],
      transaction_details = []\<rparr>"

definition scenario_req :: "int \<Rightarrow> rat \<Rightarrow> rat \<Rightarrow> CreateTransactionRequest" where
  "scenario_req tenor fee rate =
     \<lparr>rq_CustomerID = 1, rq_AssetID = 2, rq_TenorMonth = tenor, rq_AdminFee = fee,
      InterestRate = rate, rq_ContractNumber = ''KP-001''\<rparr>"

definition scenario_contract :: "int \<Rightarrow> rat \<Rightarrow> TransactionStatus \<Rightarrow> Transaction" where
  "scenario_contract tenor amount status =
     \<lparr>tx_ID = 10, tx_CustomerID = 1, tx_AssetID = 2, ContractNumber = ''KP-001'',
      OTRAmount = 90000, AdminFee = 5000, InterestAmount = 1800, tx_TenorMonth = tenor,
      InstallmentAmount = amount, tx_Status = status, tx_TransactionDetail = None\<rparr>"

section \<open>Properties of the schedule generator\<close>

lemma length_installments_loop:
  "length (installments_loop transaction newID i k d) = k"
  by (induction k arbitrary: i d) simp_all

lemma numbers_installments_loop:
  "map InstallmentNumber (installments_loop transaction newID i k d) = map (\<lambda>j. int j + 1) [i ..< i + k]"
proof (induction k arbitrary: i d)
  case 0
  show ?case by simp
next
  case (Suc k)
  have "[i ..< i + Suc k] = i # [Suc i ..< Suc i + k]"
    by (simp add: upt_conv_Cons)
  with Suc show ?case by simp
qed

lemma amounts_installments_loop:
  "list_all (\<lambda>e. td_Amount e = InstallmentAmount transaction \<and> td_Status e = ''pending'')
     (installments_loop transaction newID i k d)"
  by (induction k arbitrary: i d) (simp_all add: TransactionDetailStatusPending_def)

lemma duedate_installments_loop:
  "j < k \<Longrightarrow> DueDate (installments_loop transaction newID i k d ! j) = (AddDate_0_1_0 ^^ Suc j) d"
proof (induction k arbitrary: i d j)
  case 0
  then show ?case by simp
next
  case (Suc k)
  show ?case
  proof (cases j)
    case 0
    then show ?thesis by simp
  next
    case (Suc j')
    with Suc.prems have "j' < k" by simp
    from Suc.IH [OF this] Suc show ?thesis
      by (simp add: funpow_swap1)
  qed
qed

lemma AddDate_same_day:
  "Day t \<le> daysIn (nextMonth t) (nextMonthYear t) \<Longrightarrow>
   AddDate_0_1_0 t = t\<lparr>Year := nextMonthYear t, Month := nextMonth t\<rparr>"
  by (simp add: AddDate_0_1_0_def Let_def)

lemma daysIn_ge_28: "28 \<le> daysIn m y"
  by (simp add: daysIn_def)

lemma AddDate_upto_28:
  "Day t \<le> 28 \<Longrightarrow> AddDate_0_1_0 t = t\<lparr>Year := nextMonthYear t, Month := nextMonth t\<rparr>"
  using daysIn_ge_28 [of "nextMonth t" "nextMonthYear t"] by (intro AddDate_same_day) simp

lemma installments_loop_numeral:
  "installments_loop transaction newID i (numeral v) dueDate =
     \<lparr>td_ID = newID i,
      td_TransactionID = tx_ID transaction,
      InstallmentNumber = int i + 1,
      td_Amount = InstallmentAmount transaction,
      DueDate = AddDate_0_1_0 dueDate,
      td_Status = TransactionDetailStatusPending\<rparr>
     # installments_loop transaction newID (Suc i) (pred_numeral v) (AddDate_0_1_0 dueDate)"
  by (simp add: numeral_eq_Suc)

lemma numbers_upto: "map (\<lambda>j. int j + 1) [0 ..< n] = [1 .. int n]"
proof (induction n)
  case 0
  show ?case by simp
next
  case (Suc n)
  have "[1 .. int (Suc n)] = [1 .. int n] @ [int n + 1]"
    using upto_rec2 [of 1 "int n + 1"] by (simp add: add.commute)
  with Suc show ?case by simp
qed



lemmas store_defs = First_def db_Transaction_def insert_credit_limit_def save_credit_limit_def
  delete_credit_limit_def insert_transaction_def insert_transaction_details_def
  update_transaction_status_def Preload_TransactionDetail_def

lemmas repo_defs = creditLimitRepository_def creditLimitRepository_Create_def
  creditLimitRepository_GetByID_def creditLimitRepository_GetByCustomerIDAndTenor_def
  creditLimitRepository_UpdateUsedAmount_def creditLimitRepository_Delete_def
  transactionRepository_def transactionRepository_Create_def transactionRepository_GetByID_def
  transactionRepository_GetByContractNumber_def transactionRepository_UpdateStatus_def
  customerRepository_def customerRepository_GetByID_def assetRepository_def
  assetRepository_GetByID_def engine_def

lemmas service_defs = transactionService_Create_def transactionService_Create_fetch_def
  transactionService_Create_persist_def CreateTransactionRequest_Validate_def isValidTenor_def
  interestAmount_def totalAmount_def installmentAmount_def uuid_Nil_def
  transactionService_toResponse_def TransactionStatusPending_def

lemmas scenario_defs = scenario_now_def scenario_ids_def scenario_db_def scenario_req_def
  scenario_contract_def

lemmas generator_defs = generateInstallments_def maxAlloc_def sizeof_TransactionDetail_def
  AddDate_0_1_0_def nextMonth_def nextMonthYear_def daysIn_def isLeap_def
  TransactionDetailStatusPending_def

text \<open>
  The calendar that \<open>AddDate_0_1_0\<close> computes with agrees with the calendar of the
  specification, and one step of it either lands on the same day of the following month
  or, where the following month is too short, runs over into the month after it.
\<close>

lemma month_cases:
  "1 \<le> m \<Longrightarrow> m \<le> (12::nat) \<Longrightarrow>
   m = 1 \<or> m = 2 \<or> m = 3 \<or> m = 4 \<or> m = 5 \<or> m = 6 \<or> m = 7 \<or> m = 8 \<or> m = 9 \<or> m = 10 \<or> m = 11 \<or> m = 12"
  by arith

lemma spec_days_in_month_this:
  assumes "1 \<le> Month t" and "Month t \<le> 12"
  shows "spec_days_in_month (spec_month_index t) = daysIn (Month t) (Year t)"
  using month_cases [OF assms]
  by (elim disjE) (simp_all add: spec_days_in_month_def spec_month_index_def daysIn_def isLeap_def Let_def)

lemma spec_days_in_month_next:
  assumes "1 \<le> Month t" and "Month t \<le> 12"
  shows "spec_days_in_month (spec_month_index t + 1) = daysIn (nextMonth t) (nextMonthYear t)"
  using month_cases [OF assms]
  by (elim disjE) (simp_all add: spec_days_in_month_def spec_month_index_def daysIn_def isLeap_def
        nextMonth_def nextMonthYear_def Let_def)

lemma spec_days_in_month_bounds: "28 \<le> spec_days_in_month k \<and> spec_days_in_month k \<le> 31"
proof -
  define j where "j = nat (k mod 12)"
  define feb :: nat where "feb = (if (k div 12) mod 4 = 0 \<and> ((k div 12) mod 100 \<noteq> 0 \<or> (k div 12) mod 400 = 0) then 29 else 28)"
  have eq: "spec_days_in_month k = [31, feb, 31, 30, 31, 30, 31, 31, 30, 31, 30, 31] ! j"
    by (simp add: spec_days_in_month_def Let_def j_def feb_def)
  have feb: "28 \<le> feb \<and> feb \<le> 31" by (simp add: feb_def)
  have "j < 12" by (simp add: j_def)
  then have "j = 0 \<or> j = 1 \<or> j = 2 \<or> j = 3 \<or> j = 4 \<or> j = 5 \<or> j = 6 \<or> j = 7 \<or> j = 8 \<or> j = 9
      \<or> j = 10 \<or> j = 11"
    by arith
  with feb show ?thesis
    unfolding eq by (elim disjE) simp_all
qed

lemma AddDate_same_clock: "spec_same_clock t (AddDate_0_1_0 t)"
  by (simp add: spec_same_clock_def AddDate_0_1_0_def Let_def)

lemma AddDate_fits:
  assumes "spec_valid_date t" and "Day t \<le> spec_days_in_month (spec_month_index t + 1)"
  shows "spec_one_calendar_month_after t (AddDate_0_1_0 t) \<and> spec_valid_date (AddDate_0_1_0 t)"
proof -
  from assms(1) have m: "1 \<le> Month t" "Month t \<le> 12" and d: "1 \<le> Day t"
    by (simp_all add: spec_valid_date_def)
  from assms(2) have fit: "Day t \<le> daysIn (nextMonth t) (nextMonthYear t)"
    by (simp add: spec_days_in_month_next [OF m])
  then have eq: "AddDate_0_1_0 t = t\<lparr>Year := nextMonthYear t, Month := nextMonth t\<rparr>"
    by (rule AddDate_same_day)
  have idx: "spec_month_index (AddDate_0_1_0 t) = spec_month_index t + 1"
    using m by (simp add: eq spec_month_index_def nextMonth_def nextMonthYear_def)
  have mn: "1 \<le> Month (AddDate_0_1_0 t)" "Month (AddDate_0_1_0 t) \<le> 12"
    using m by (simp_all add: eq nextMonth_def)
  have dy: "Day (AddDate_0_1_0 t) = Day t"
    by (simp add: eq)
  from idx mn dy assms(2) d AddDate_same_clock [of t] show ?thesis
    by (simp add: spec_one_calendar_month_after_def spec_in_following_month_def spec_valid_date_def)
qed

lemma AddDate_runs_over:
  assumes "spec_valid_date t" and "\<not> Day t \<le> spec_days_in_month (spec_month_index t + 1)"
  shows "spec_run_over t (AddDate_0_1_0 t) \<and> spec_valid_date (AddDate_0_1_0 t)"
proof -
  from assms(1) have m: "1 \<le> Month t" "Month t \<le> 12" and d: "1 \<le> Day t"
    and dd: "Day t \<le> spec_days_in_month (spec_month_index t)"
    by (simp_all add: spec_valid_date_def)
  define n where "n = daysIn (nextMonth t) (nextMonthYear t)"
  have n: "spec_days_in_month (spec_month_index t + 1) = n"
    by (simp add: n_def spec_days_in_month_next [OF m])
  from assms(2) n have over: "n < Day t" by simp
  have n28: "28 \<le> n" by (simp add: n_def daysIn_ge_28)
  from dd spec_days_in_month_bounds [of "spec_month_index t"] have d31: "Day t \<le> 31" by simp
  have n31: "nextMonth t \<noteq> 12"
  proof
    assume "nextMonth t = 12"
    then have "n = 31" by (simp add: n_def daysIn_def)
    with over d31 show False by simp
  qed
  then have m11: "Month t \<noteq> 11"
    by (auto simp: nextMonth_def split: if_splits)
  have m12: "Month t \<noteq> 12"
  proof
    assume "Month t = 12"
    then have "n = 31" by (simp add: n_def daysIn_def nextMonth_def)
    with over d31 show False by simp
  qed
  have eq: "AddDate_0_1_0 t = t\<lparr>Year := Year t, Month := Month t + 2, Day := Day t - n\<rparr>"
    using over n31 m12 by (simp add: AddDate_0_1_0_def Let_def n_def nextMonth_def nextMonthYear_def)
  have idx: "spec_month_index (AddDate_0_1_0 t) = spec_month_index t + 2"
    by (simp add: eq spec_month_index_def)
  have mn: "1 \<le> Month (AddDate_0_1_0 t)" "Month (AddDate_0_1_0 t) \<le> 12"
    using m m11 m12 by (simp_all add: eq)
  have dy: "Day (AddDate_0_1_0 t) = Day t - n" by (simp add: eq)
  have small: "Day t - n \<le> 28" using d31 n28 by simp
  from spec_days_in_month_bounds [of "spec_month_index t + 2"] small
  have le: "Day t - n \<le> spec_days_in_month (spec_month_index t + 2)" by simp
  from idx mn dy over n le AddDate_same_clock [of t] show ?thesis
    by (simp add: spec_run_over_def spec_valid_date_def)
qed

lemma step_installments_loop:
  "spec_valid_date d \<Longrightarrow>
   spec_monthly_or_run_over d (map DueDate (installments_loop transaction newID i k d))"
proof (induction k arbitrary: i d)
  case 0
  show ?case by simp
next
  case (Suc k)
  show ?case
  proof (cases "Day d \<le> spec_days_in_month (spec_month_index d + 1)")
    case True
    from AddDate_fits [OF Suc.prems True] Suc.IH [of "AddDate_0_1_0 d" "Suc i"] True
    show ?thesis by simp
  next
    case False
    from AddDate_runs_over [OF Suc.prems False] Suc.IH [of "AddDate_0_1_0 d" "Suc i"] False
    show ?thesis by simp
  qed
qed

lemma monthly_installments_loop:
  "spec_valid_date d \<Longrightarrow> Day d \<le> 28 \<Longrightarrow>
   spec_monthly d (map DueDate (installments_loop transaction newID i k d))"
proof (induction k arbitrary: i d)
  case 0
  show ?case by simp
next
  case (Suc k)
  from Suc.prems(2) spec_days_in_month_bounds [of "spec_month_index d + 1"]
  have fit: "Day d \<le> spec_days_in_month (spec_month_index d + 1)" by simp
  from AddDate_fits [OF Suc.prems(1) fit]
  have a: "spec_one_calendar_month_after d (AddDate_0_1_0 d)" and v: "spec_valid_date (AddDate_0_1_0 d)"
    by simp_all
  from a Suc.prems(2) have "Day (AddDate_0_1_0 d) \<le> 28"
    by (simp add: spec_one_calendar_month_after_def)
  from Suc.IH [OF v this, of "Suc i"] a show ?case by simp
qed


text \<open>Outside the lengths that \<open>make\<close> accepts the generator panics.\<close>

lemma generateInstallments_panics:
  "tx_TenorMonth transaction < 0 \<or> maxAlloc < sizeof_TransactionDetail * tx_TenorMonth transaction \<Longrightarrow>
   generateInstallments now newID transaction = Inl (Panic ''makeslice: len out of range'')"
  by (simp add: generateInstallments_def)

text \<open>
  C5, amended. For every contract of duration \<open>D\<close> that \<open>make\<close> accepts (\<open>D\<close> is not negative
  and the slice stays within \<open>maxAlloc\<close>) and every generation instant that is a date of
  the calendar, the generator returns a schedule of exactly \<open>D\<close> entries, numbered
  \<open>1, ..., D\<close> in order, each with the contract's installment amount and the status
  \<open>pending\<close>. Each due date is exactly one calendar month after the one before it (the
  first after the generation instant), that is the same day and time of day in the
  following calendar month, whenever the following month has that day; otherwise it runs
  over into the month after the following one, by as many days as the following month is
  too short. When the generation instant is on day 28 or earlier, every due date is
  exactly one calendar month after the one before it.
\<close>

theorem schedule_complete:
  assumes "0 \<le> tx_TenorMonth transaction"
    and "sizeof_TransactionDetail * tx_TenorMonth transaction \<le> maxAlloc"
    and "spec_valid_date now"
  shows "\<exists>ds. generateInstallments now newID transaction = Inr ds
           \<and> int (length ds) = tx_TenorMonth transaction
           \<and> map InstallmentNumber ds = [1 .. tx_TenorMonth transaction]
           \<and> list_all (\<lambda>e. td_Amount e = InstallmentAmount transaction \<and> td_Status e = ''pending'') ds
           \<and> spec_monthly_or_run_over now (map DueDate ds)
           \<and> (Day now \<le> 28 \<longrightarrow> spec_monthly now (map DueDate ds))"
proof -
  define n where "n = nat (tx_TenorMonth transaction)"
  define ds where "ds = installments_loop transaction newID 0 n now"
  have gen: "generateInstallments now newID transaction = Inr ds"
    using assms(1,2) by (simp add: generateInstallments_def ds_def n_def)
  have len: "int (length ds) = tx_TenorMonth transaction"
    using assms(1) by (simp add: ds_def length_installments_loop n_def)
  have nums: "map InstallmentNumber ds = [1 .. tx_TenorMonth transaction]"
    using assms(1) numbers_installments_loop [of transaction newID 0 n now] numbers_upto [of n]
    by (simp add: ds_def n_def)
  have flat: "list_all (\<lambda>e. td_Amount e = InstallmentAmount transaction \<and> td_Status e = ''pending'') ds"
    unfolding ds_def by (rule amounts_installments_loop)
  have steps: "spec_monthly_or_run_over now (map DueDate ds)"
    unfolding ds_def using assms(3) by (rule step_installments_loop)
  have monthly: "Day now \<le> 28 \<longrightarrow> spec_monthly now (map DueDate ds)"
    unfolding ds_def using assms(3) by (simp add: monthly_installments_loop)
  from gen len nums flat steps monthly show ?thesis
    by (intro exI [of _ ds] conjI)
qed

text \<open>
  Scenario D, a contract of six months, generated on 30 November 2024: the due dates pass
  the end of the year, February 2025 has no day 30, and the third due date is 2 March.
\<close>

theorem schedule_complete_witness:
  "0 \<le> tx_TenorMonth (scenario_contract 6 17300 ''pending'')
   \<and> sizeof_TransactionDetail * tx_TenorMonth (scenario_contract 6 17300 ''pending'') \<le> maxAlloc
   \<and> spec_valid_date (scenario_now\<lparr>Month := 11, Day := 30\<rparr>)
   \<and> (\<exists>ds. generateInstallments (scenario_now\<lparr>Month := 11, Day := 30\<rparr>) scenario_ids
              (scenario_contract 6 17300 ''pending'') = Inr ds
          \<and> length ds = 6
          \<and> map InstallmentNumber ds = [1, 2, 3, 4, 5, 6]
          \<and> list_all (\<lambda>e. td_Amount e = 17300 \<and> td_Status e = ''pending'') ds
          \<and> spec_monthly_or_run_over (scenario_now\<lparr>Month := 11, Day := 30\<rparr>) (map DueDate ds)
          \<and> map DueDate ds =
              [scenario_now\<lparr>Year := 2024, Month := 12, Day := 30\<rparr>,
               scenario_now\<lparr>Year := 2025, Month := 1, Day := 30\<rparr>,
               scenario_now\<lparr>Year := 2025, Month := 3, Day := 2\<rparr>,
               scenario_now\<lparr>Year := 2025, Month := 4, Day := 2\<rparr>,
               scenario_now\<lparr>Year := 2025, Month := 5, Day := 2\<rparr>,
               scenario_now\<lparr>Year := 2025, Month := 6, Day := 2\<rparr>])"
proof -
  let ?now = "scenario_now\<lparr>Month := 11, Day := 30\<rparr>"
  let ?c = "scenario_contract 6 17300 ''pending''"
  have h1: "0 \<le> tx_TenorMonth ?c"
    by (simp add: scenario_contract_def)
  have h2: "sizeof_TransactionDetail * tx_TenorMonth ?c \<le> maxAlloc"
    by (simp add: scenario_contract_def sizeof_TransactionDetail_def maxAlloc_def)
  have h3: "spec_valid_date ?now"
    by (simp add: spec_valid_date_def spec_days_in_month_def spec_month_index_def scenario_now_def)
  have u: "[1 .. 6 :: int] = [1, 2, 3, 4, 5, 6]"
    by (simp add: upto.simps)
  have run: "generateInstallments ?now scenario_ids ?c =
      Inr (installments_loop ?c scenario_ids 0 6 ?now)"
    by (simp add: generateInstallments_def scenario_contract_def sizeof_TransactionDetail_def maxAlloc_def)
  have dates: "map DueDate (installments_loop ?c scenario_ids 0 6 ?now) =
              [scenario_now\<lparr>Year := 2024, Month := 12, Day := 30\<rparr>,
               scenario_now\<lparr>Year := 2025, Month := 1, Day := 30\<rparr>,
               scenario_now\<lparr>Year := 2025, Month := 3, Day := 2\<rparr>,
               scenario_now\<lparr>Year := 2025, Month := 4, Day := 2\<rparr>,
               scenario_now\<lparr>Year := 2025, Month := 5, Day := 2\<rparr>,
               scenario_now\<lparr>Year := 2025, Month := 6, Day := 2\<rparr>]"
    by (simp add: installments_loop_numeral AddDate_0_1_0_def nextMonth_def nextMonthYear_def
          daysIn_def isLeap_def scenario_now_def Let_def)
  from schedule_complete [OF h1 h2 h3, of scenario_ids]
  obtain ds where ds: "generateInstallments ?now scenario_ids ?c = Inr ds"
    and len: "int (length ds) = tx_TenorMonth ?c"
    and nums: "map InstallmentNumber ds = [1 .. tx_TenorMonth ?c]"
    and flat: "list_all (\<lambda>e. td_Amount e = InstallmentAmount ?c \<and> td_Status e = ''pending'') ds"
    and steps: "spec_monthly_or_run_over ?now (map DueDate ds)"
    by blast
  from ds run have eq: "ds = installments_loop ?c scenario_ids 0 6 ?now" by simp
  from len have len': "length ds = 6" by (simp add: scenario_contract_def)
  from nums u have nums': "map InstallmentNumber ds = [1, 2, 3, 4, 5, 6]"
    by (simp add: scenario_contract_def)
  from flat have flat': "list_all (\<lambda>e. td_Amount e = 17300 \<and> td_Status e = ''pending'') ds"
    by (simp add: scenario_contract_def)
  from dates eq have dates': "map DueDate ds =
              [scenario_now\<lparr>Year := 2024, Month := 12, Day := 30\<rparr>,
               scenario_now\<lparr>Year := 2025, Month := 1, Day := 30\<rparr>,
               scenario_now\<lparr>Year := 2025, Month := 3, Day := 2\<rparr>,
               scenario_now\<lparr>Year := 2025, Month := 4, Day := 2\<rparr>,
               scenario_now\<lparr>Year := 2025, Month := 5, Day := 2\<rparr>,
               scenario_now\<lparr>Year := 2025, Month := 6, Day := 2\<rparr>]"
    by simp
  from h1 h2 h3 ds len' nums' flat' steps dates' show ?thesis
    by (intro conjI exI [of _ ds])
qed

text \<open>
  C5, as stated, fails for a generation instant at the end of a month. A contract of
  three months generated on 31 January 2024 gets the due dates 2 March, 2 April and 2 May:
  the first of them is not in the calendar month that follows January, and no due date is
  in February.
\<close>

theorem month_end_skips_february:
  "due_dates (generateInstallments (scenario_now\<lparr>Day := 31\<rparr>) scenario_ids
      (scenario_contract 3 34000 ''pending''))
     = Inr [scenario_now\<lparr>Month := 3, Day := 2\<rparr>,
            scenario_now\<lparr>Month := 4, Day := 2\<rparr>,
            scenario_now\<lparr>Month := 5, Day := 2\<rparr>]
   \<and> spec_valid_date (scenario_now\<lparr>Day := 31\<rparr>)
   \<and> \<not> spec_in_following_month (scenario_now\<lparr>Day := 31\<rparr>) (scenario_now\<lparr>Month := 3, Day := 2\<rparr>)
   \<and> \<not> spec_monthly (scenario_now\<lparr>Day := 31\<rparr>)
         [scenario_now\<lparr>Month := 3, Day := 2\<rparr>,
          scenario_now\<lparr>Month := 4, Day := 2\<rparr>,
          scenario_now\<lparr>Month := 5, Day := 2\<rparr>]"
  by (simp add: due_dates_def generator_defs scenario_defs Let_def installments_loop_numeral
        spec_valid_date_def spec_days_in_month_def spec_month_index_def
        spec_in_following_month_def spec_one_calendar_month_after_def)



section \<open>Properties of the services\<close>

text \<open>
  C10. For every credit-limit identifier, \<open>UpdateUsedAmount\<close> of the service with the
  amount \<open>0\<close> returns \<open>nil\<close> at once and leaves the store as it is. It does so for every
  repository behind the service and for every store: no lookup takes part in the result,
  and an identifier that no row has is accepted as well.
\<close>

theorem zero_amount_returns_at_once:
  "creditLimitService_UpdateUsedAmount repo rid 0 s = (None, s)"
  by (simp add: creditLimitService_UpdateUsedAmount_def)

text \<open>
  C1 on the code, Scenario A (credit limit of 100000 with nothing used, asset price 90000,
  admin fee 5000, interest rate 2, one month). \<open>transactionRepository.Create\<close> stores the
  contract and its schedule and adds the OTR amount 90000 to the used amount; the service
  then asks \<open>UpdateUsedAmount\<close> for the total 96800 on top of that, which exceeds the limit.
  The request ends in an error, the contract stays stored, and the used amount is 90000.
\<close>

theorem scenario_A_issuance:
  "transactionService_Create (engine scenario_now scenario_ids) 10 (scenario_req 1 5000 2)
     (scenario_db 1 90000 100000 0) =
   (Inl (Wrapf ''failed to update credit limit''
          (Errorf ''insufficient credit limit: available %.2f, requested %.2f''
             [F 10000, F 96800])),
    (scenario_db 1 90000 100000 90000)
      \<lparr>transactions := [scenario_contract 1 96800 ''pending''],
       transaction_details :=
         [\<lparr>td_ID = 100, td_TransactionID = 10, InstallmentNumber = 1, td_Amount = 96800,
           DueDate = scenario_now\<lparr>Month := 2\<rparr>, td_Status = ''pending''\<rparr>]\<rparr>)"
  by (simp add: store_defs repo_defs service_defs scenario_defs generator_defs Let_def)

text \<open>
  With a limit that is large enough the issuance succeeds, and the used amount grows by
  the OTR amount and the total together: 90000 + 98600 for a total of 98600.
\<close>

lemma issuance_counts_twice:
  "map UsedAmount (credit_limits (snd
     (transactionService_Create (engine scenario_now scenario_ids) 10 (scenario_req 2 5000 2)
        (scenario_db 2 90000 1000000 0))))
   = [188600]"
  by (simp add: store_defs repo_defs service_defs scenario_defs generator_defs Let_def
        installments_loop_numeral)

text \<open>
  C7 on the code. The entity holds its schedule in one pointer, which \<open>toResponse\<close> turns
  into at most one installment. A successful issuance over two months stores two schedule
  rows and answers with one installment.
\<close>

theorem two_month_response:
  "installments_returned
     (transactionService_Create (engine scenario_now scenario_ids) 10 (scenario_req 2 5000 2)
        (scenario_db 2 90000 1000000 0))
   = Inr (2, 1, 2)"
  by (simp add: installments_returned_def store_defs repo_defs service_defs scenario_defs
        generator_defs Let_def installments_loop_numeral)

lemma toResponse_at_most_one:
  "length (Installments (transactionService_toResponse tx)) \<le> 1"
  by (simp add: transactionService_toResponse_def split: option.split)



text \<open>
  The check inside the database transaction of \<open>transactionRepository.Create\<close>: when it
  fails, nothing that the transaction wrote persists. It compares the OTR amount, not the
  total amount, and its error is a formatted one.
\<close>

lemma repository_recheck_rolls_back:
  assumes "find (\<lambda>r. cl_CustomerID r = tx_CustomerID transaction \<and> cl_TenorMonth r = tx_TenorMonth transaction)
             (credit_limits s) = Some creditLimit"
    and "UsedAmount creditLimit + OTRAmount transaction > LimitAmount creditLimit"
  shows "transactionRepository_Create now newID transaction s =
           (Some (Errorf ''insufficient credit limit: available %.2f, requested %.2f''
                    [F (LimitAmount creditLimit - UsedAmount creditLimit), F (OTRAmount transaction)]), s)"
  using assms by (simp add: transactionRepository_Create_def First_def db_Transaction_def)

lemma db_Transaction_error_keeps_store:
  "db_Transaction fn s = (Some err, s') \<Longrightarrow> s' = s"
  by (auto simp: db_Transaction_def split: prod.splits option.splits)



text \<open>
  C9, as stated, fails in its second half: \<open>UpdateStatus\<close> checks that the status is one of
  the enumeration and nothing else. A completed contract is set back to \<open>pending\<close>.
\<close>

theorem status_can_go_back:
  "transactionService_UpdateStatus (engine scenario_now scenario_ids) 10 ''pending''
     ((scenario_db 1 90000 100000 90000)\<lparr>transactions := [scenario_contract 1 96800 ''completed'']\<rparr>)
   = (None, (scenario_db 1 90000 100000 90000)\<lparr>transactions := [scenario_contract 1 96800 ''pending'']\<rparr>)"
  by (simp add: transactionService_UpdateStatus_def TransactionStatus_IsValid_def
        TransactionStatusPending_def repo_defs store_defs scenario_defs)

lemma IsValid_iff:
  "TransactionStatus_IsValid status \<longleftrightarrow> status = ''pending'' \<or> status = ''active'' \<or> status = ''completed''"
  by (simp add: TransactionStatus_IsValid_def TransactionStatusPending_def TransactionStatusActive_def
        TransactionStatusCompleted_def)

text \<open>
  C9, amended. A status outside \<open>pending\<close>, \<open>active\<close>, \<open>completed\<close> is rejected with
  \<open>ErrInvalidStatus\<close> and the store is unchanged, for every repository behind the service;
  a status of the enumeration is accepted for every contract that exists, whatever its
  current status is, and becomes the status of the contract.
\<close>

theorem status_update_validated:
  "(status \<noteq> ''pending'' \<and> status \<noteq> ''active'' \<and> status \<noteq> ''completed'' \<longrightarrow>
      transactionService_UpdateStatus svc rid status s = (Some ErrInvalidStatus, s))
   \<and> ((status = ''pending'' \<or> status = ''active'' \<or> status = ''completed'')
        \<and> list_ex (\<lambda>r. tx_ID r = rid) (transactions s) \<longrightarrow>
      transactionService_UpdateStatus (engine now newID) rid status s
        = (None, s\<lparr>transactions :=
             map (\<lambda>r. if tx_ID r = rid then r\<lparr>tx_Status := status\<rparr> else r) (transactions s)\<rparr>))"
proof (intro conjI impI)
  assume "status \<noteq> ''pending'' \<and> status \<noteq> ''active'' \<and> status \<noteq> ''completed''"
  then show "transactionService_UpdateStatus svc rid status s = (Some ErrInvalidStatus, s)"
    by (simp add: transactionService_UpdateStatus_def IsValid_iff)
next
  assume a: "(status = ''pending'' \<or> status = ''active'' \<or> status = ''completed'')
        \<and> list_ex (\<lambda>r. tx_ID r = rid) (transactions s)"
  then have valid: "TransactionStatus_IsValid status" by (simp add: IsValid_iff)
  from a obtain t where found: "find (\<lambda>r. tx_ID r = rid) (transactions s) = Some t"
    by (cases "find (\<lambda>r. tx_ID r = rid) (transactions s)") (auto simp: find_None_iff list_ex_iff)
  then have rid: "tx_ID t = rid" by (auto simp: find_Some_iff)
  from valid found rid
  show "transactionService_UpdateStatus (engine now newID) rid status s
        = (None, s\<lparr>transactions :=
             map (\<lambda>r. if tx_ID r = rid then r\<lparr>tx_Status := status\<rparr> else r) (transactions s)\<rparr>)"
    by (simp add: transactionService_UpdateStatus_def repo_defs First_def db_Transaction_def
          update_transaction_status_def)
qed

text \<open>
  On a pending contract, \<open>paid\<close> is rejected and \<open>active\<close> is accepted.
\<close>

theorem status_update_validated_witness:
  "transactionService_UpdateStatus (engine scenario_now scenario_ids) 10 ''paid''
     ((scenario_db 1 90000 100000 90000)\<lparr>transactions := [scenario_contract 1 96800 ''pending'']\<rparr>)
   = (Some ErrInvalidStatus,
      (scenario_db 1 90000 100000 90000)\<lparr>transactions := [scenario_contract 1 96800 ''pending'']\<rparr>)
   \<and> transactionService_UpdateStatus (engine scenario_now scenario_ids) 10 ''active''
     ((scenario_db 1 90000 100000 90000)\<lparr>transactions := [scenario_contract 1 96800 ''pending'']\<rparr>)
   = (None, (scenario_db 1 90000 100000 90000)\<lparr>transactions := [scenario_contract 1 96800 ''active'']\<rparr>)"
  using status_update_validated [of "''paid''" "engine scenario_now scenario_ids" 10
          "(scenario_db 1 90000 100000 90000)\<lparr>transactions := [scenario_contract 1 96800 ''pending'']\<rparr>"]
        status_update_validated [of "''active''" "engine scenario_now scenario_ids" 10
          "(scenario_db 1 90000 100000 90000)\<lparr>transactions := [scenario_contract 1 96800 ''pending'']\<rparr>"
          scenario_now scenario_ids]
  by (simp add: scenario_db_def scenario_contract_def)

end
